theory Spec2Isabelle
  imports Main
begin

section \<open>Python values used by the zone package\<close>

text \<open>
  The text of a zone file is a Python 3 \<^verbatim>\<open>str\<close>: a sequence of Unicode code points, here
  a list of integers (\<open>pystr\<close>); \<open>str\<close> gives the code points of an ASCII literal.
  The strings that the program fixes itself (file names, the attributes of a package, the
  messages of exceptions) stay literals. Exceptions are values of the type \<open>exn\<close>; a
  function that can raise returns \<open>exn + 'a\<close>.
\<close>

datatype exn =
    IndexError
  | ValueError
  | IOError
  | AttributeError
  | Exception string

type_synonym pystr = "int list"

definition str :: "string \<Rightarrow> pystr" where
  "str s = map of_char s"

text \<open>
  The whitespace of \<^verbatim>\<open>str.split()\<close> and \<^verbatim>\<open>str.strip()\<close>: the ASCII characters U+0009 to
  U+000D and U+001C to U+0020, and U+0085, U+00A0, U+1680, U+2000 to U+200A, U+2028,
  U+2029, U+202F, U+205F and U+3000.
\<close>

definition isspace :: "int \<Rightarrow> bool" where
  "isspace c =
     ((0x09 \<le> c \<and> c \<le> 0x0D) \<or> (0x1C \<le> c \<and> c \<le> 0x20) \<or> c = 0x85 \<or> c = 0xA0 \<or>
      c = 0x1680 \<or> (0x2000 \<le> c \<and> c \<le> 0x200A) \<or> c = 0x2028 \<or> c = 0x2029 \<or>
      c = 0x202F \<or> c = 0x205F \<or> c = 0x3000)"

text \<open>
  \<^verbatim>\<open>s.lower()\<close> replaces every character by its lower-case mapping, which is a sequence of
  code points: U+0130 (capital I with dot above) becomes the two code points U+0069
  U+0307, and no other character becomes more than one. The mapping is written out for
  the code points up to U+017F (Basic Latin, Latin-1 Supplement, Latin Extended-A): the
  capital letters A to Z and U+00C0 to U+00DE but the multiplication sign U+00D7 move by
  32; in Latin Extended-A a capital letter is followed by its small letter, the capital
  being the even code point in U+0100 to U+012F, U+0132 to U+0137 and U+014A to U+0177
  and the odd one in U+0139 to U+0148 and U+0179 to U+017E; U+0178 becomes U+00FF. A code
  point above U+017F is left as it is here, where Python lowers the capital letters of
  further scripts to one code point each; what is proved below about lengths depends
  only on U+0130 being the one character that becomes longer.
\<close>

definition lower_char :: "int \<Rightarrow> pystr" where
  "lower_char c =
     (if 0x41 \<le> c \<and> c \<le> 0x5A then [c + 32]
      else if 0xC0 \<le> c \<and> c \<le> 0xDE \<and> c \<noteq> 0xD7 then [c + 32]
      else if c = 0x130 then [0x69, 0x307]
      else if ((0x100 \<le> c \<and> c \<le> 0x12F) \<or> (0x132 \<le> c \<and> c \<le> 0x137) \<or>
               (0x14A \<le> c \<and> c \<le> 0x177)) \<and> even c then [c + 1]
      else if ((0x139 \<le> c \<and> c \<le> 0x148) \<or> (0x179 \<le> c \<and> c \<le> 0x17E)) \<and> odd c
        then [c + 1]
      else if c = 0x178 then [0xFF]
      else [c])"

definition lower :: "pystr \<Rightarrow> pystr" where
  "lower s = concat (map lower_char s)"

text \<open>\<^verbatim>\<open>s.strip()\<close>\<close>

definition strip :: "pystr \<Rightarrow> pystr" where
  "strip s = rev (dropWhile isspace (rev (dropWhile isspace s)))"

text \<open>
  \<^verbatim>\<open>s.split()\<close>: the maximal runs of non-whitespace characters, in order. The first
  argument of \<open>split_from\<close> is the word read so far.
\<close>

fun split_from :: "pystr \<Rightarrow> pystr \<Rightarrow> pystr list" where
  "split_from w [] = (if w = [] then [] else [w])"
| "split_from w (c # cs) =
     (if isspace c then (if w = [] then split_from [] cs else w # split_from [] cs)
      else split_from (w @ [c]) cs)"

definition split :: "pystr \<Rightarrow> pystr list" where
  "split s = split_from [] s"

text \<open>
  \<^verbatim>\<open>int(s)\<close> on a word: an optional sign, then decimal digits, where one underscore may
  stand between two digits; anything else raises ValueError (here \<open>None\<close>). The digits
  are the ASCII digits; the decimal digits of other scripts, which \<^verbatim>\<open>int\<close> reads as well,
  are not among them here.
\<close>

definition digit_val :: "int \<Rightarrow> nat option" where
  "digit_val c = (if 0x30 \<le> c \<and> c \<le> 0x39 then Some (nat (c - 0x30)) else None)"

fun digits_from :: "nat \<Rightarrow> pystr \<Rightarrow> nat option" where
  "digits_from acc [] = Some acc"
| "digits_from acc [c] = (case digit_val c of None \<Rightarrow> None | Some d \<Rightarrow> Some (10 * acc + d))"
| "digits_from acc (c # c' # cs) =
     (if c = 0x5F
      then (case digit_val c' of None \<Rightarrow> None | Some d \<Rightarrow> digits_from (10 * acc + d) cs)
      else (case digit_val c of None \<Rightarrow> None | Some d \<Rightarrow> digits_from (10 * acc + d) (c' # cs)))"

definition py_nat :: "pystr \<Rightarrow> nat option" where
  "py_nat s =
     (case s of
        [] \<Rightarrow> None
      | c # cs \<Rightarrow> (case digit_val c of None \<Rightarrow> None | Some d \<Rightarrow> digits_from d cs))"

definition py_int :: "pystr \<Rightarrow> int option" where
  "py_int s =
     (case s of
        [] \<Rightarrow> None
      | c # cs \<Rightarrow>
          if c = 0x2D then map_option (\<lambda>n. - int n) (py_nat cs)
          else if c = 0x2B then map_option int (py_nat cs)
          else map_option int (py_nat s))"

text \<open>\<^verbatim>\<open>'{:<10s}'.format(s)\<close>: \<open>s\<close> padded on the right with spaces to 10 characters.\<close>

definition ljust10 :: "pystr \<Rightarrow> pystr" where
  "ljust10 s = s @ replicate (10 - length s) 0x20"

section \<open>Text files\<close>

text \<open>
  A file system maps a file name to the text of the file. \<^verbatim>\<open>open(filename, 'r')\<close> reads
  with universal newlines: a carriage return, alone or followed by a line feed, is read
  as a line feed. An open text file is the text not yet read. \<^verbatim>\<open>f.readline()\<close> returns
  the characters up to and including the next line feed (the whole rest when there is
  none, the empty string at the end of the file) and leaves the rest.
\<close>

type_synonym handle = pystr

type_synonym filesystem = "string \<rightharpoonup> pystr"

fun universal_newlines :: "pystr \<Rightarrow> pystr" where
  "universal_newlines [] = []"
| "universal_newlines [c] = [if c = 0x0D then 0x0A else c]"
| "universal_newlines (c # c' # cs) =
     (if c = 0x0D
      then (if c' = 0x0A then 0x0A # universal_newlines cs else 0x0A # universal_newlines (c' # cs))
      else c # universal_newlines (c' # cs))"

definition readline :: "handle \<Rightarrow> pystr \<times> handle" where
  "readline f =
     (takeWhile (\<lambda>c. c \<noteq> 0x0A) f @ take 1 (dropWhile (\<lambda>c. c \<noteq> 0x0A) f),
      drop 1 (dropWhile (\<lambda>c. c \<noteq> 0x0A) f))"

lemma readline_shorter:
  assumes "readline f = (c # cs, f')"
  shows "length f' < length f"
proof -
  have "f \<noteq> []" using assms by (auto simp: readline_def)
  moreover have "length (dropWhile (\<lambda>c. c \<noteq> 0x0A) f) \<le> length f"
    by (rule length_dropWhile_le)
  moreover have "length (takeWhile (\<lambda>c. c \<noteq> 0x0A) f) + length (dropWhile (\<lambda>c. c \<noteq> 0x0A) f)
                 = length f"
    by (metis length_append takeWhile_dropWhile_id)
  ultimately show ?thesis using assms
    by (cases "dropWhile (\<lambda>c. c \<noteq> 0x0A) f") (auto simp: readline_def)
qed

section \<open>The zone package: \<^verbatim>\<open>flopy/modflow/mfzon.py\<close>\<close>

subsection \<open>Objects\<close>

text \<open>
  \<^verbatim>\<open>Util2d\<close> is defined in \<^verbatim>\<open>flopy.utils\<close> and the model class in \<^verbatim>\<open>flopy.mbase\<close>.
  Of a \<^verbatim>\<open>Util2d\<close> object the package reads the attribute \<^verbatim>\<open>locat\<close> only; of the model
  it reads \<^verbatim>\<open>verbose\<close> and the tuple returned by \<^verbatim>\<open>get_nrow_ncol_nlay_nper()\<close>. What the
  methods \<^verbatim>\<open>add_pop_key_list\<close> and \<^verbatim>\<open>add_package\<close> do to the model is decided in
  \<^verbatim>\<open>flopy.mbase\<close>, so a call on the model is recorded as an event, in the order of the
  calls, together with what is written to \<^verbatim>\<open>sys.stdout\<close>.
\<close>

record util2d =
  array :: "int list list"
  locat :: "int option"

record model =
  verbose :: bool
  nrow_ncol_nlay_nper :: "int \<times> int \<times> int \<times> int"

text \<open>
  \<^verbatim>\<open>collections.OrderedDict\<close>: an association list with the keys in insertion order.
  \<^verbatim>\<open>d[k] = v\<close> replaces the value of a key already present, in place, and appends a new
  key.
\<close>

type_synonym zone_dict = "(pystr \<times> util2d) list"

fun setitem :: "zone_dict \<Rightarrow> pystr \<Rightarrow> util2d \<Rightarrow> zone_dict" where
  "setitem [] k v = [(k, v)]"
| "setitem (p # ps) k v = (if fst p = k then (k, v) # ps else p # setitem ps k v)"

text \<open>
  The attributes of a \<^verbatim>\<open>ModflowZon\<close> object. \<^verbatim>\<open>Package.__init__\<close> sets \<open>parent\<close>,
  \<open>extension\<close>, \<open>name\<close> and \<open>unit_number\<close> (so the source's comment). The attribute
  \<open>zone_dict\<close> is \<open>None\<close> as long as it has not been assigned.
\<close>

record modflow_zon =
  parent :: model
  extension :: string
  name :: string
  unit_number :: int
  heading :: string
  url :: string
  nzn :: int
  zone_dict :: "zone_dict option"

datatype event =
    Stdout_write pystr
  | Get_nrow_ncol_nlay_nper
  | Add_pop_key_list int
  | Add_package modflow_zon

text \<open>Reading the attribute \<^verbatim>\<open>zon.zone_dict\<close>.\<close>

definition get_zone_dict :: "modflow_zon \<Rightarrow> exn + zone_dict" where
  "get_zone_dict self = (case zone_dict self of None \<Rightarrow> Inl AttributeError | Some d \<Rightarrow> Inr d)"

subsection \<open>\<^verbatim>\<open>ModflowZon.__init__\<close>\<close>

definition ModflowZon_init ::
  "model \<Rightarrow> zone_dict option \<Rightarrow> string \<Rightarrow> int \<Rightarrow> modflow_zon \<times> event list" where
  "ModflowZon_init mdl zd ext unitnumber =
     (let self0 = \<lparr>parent = mdl, extension = ext, name = ''ZONE'', unit_number = unitnumber,
                   heading = ''# ZONE for MODFLOW, generated by Flopy.'', url = ''zon.htm'',
                   nzn = 0, zone_dict = None\<rparr>;
          self = (case zd of
                    None \<Rightarrow> self0
                  | Some d \<Rightarrow> self0\<lparr>nzn := int (length d), zone_dict := Some d\<rparr>)
      in (self, [Add_package self]))"

subsection \<open>\<^verbatim>\<open>ModflowZon.write_file\<close>\<close>

text \<open>The body is \<^verbatim>\<open>pass\<close>: the method returns \<^verbatim>\<open>None\<close> and the files stay as they are.\<close>

definition write_file :: "modflow_zon \<Rightarrow> filesystem \<Rightarrow> filesystem" where
  "write_file self fs = fs"

subsection \<open>\<^verbatim>\<open>ModflowZon.load\<close>\<close>

text \<open>
  The argument \<^verbatim>\<open>f\<close> is a file name, opened for reading, or an open file. Opening a file
  that does not exist raises IOError.
\<close>

datatype file_arg = Filename string | Handle handle

definition open_file :: "filesystem \<Rightarrow> file_arg \<Rightarrow> exn + handle" where
  "open_file fs f =
     (case f of
        Handle h \<Rightarrow> Inr h
      | Filename fn \<Rightarrow>
          (case fs fn of None \<Rightarrow> Inl IOError | Some text \<Rightarrow> Inr (universal_newlines text)))"

text \<open>
  Dataset 0: lines are read until one does not start with \<^verbatim>\<open>#\<close>. \<^verbatim>\<open>line[0]\<close> raises
  IndexError on the empty string, which \<^verbatim>\<open>readline\<close> returns at the end of the file.
\<close>

function read_header :: "handle \<Rightarrow> exn + (pystr \<times> handle)" where
  "read_header f =
     (case readline f of
        ([], f') \<Rightarrow> Inl IndexError
      | (c # cs, f') \<Rightarrow> if c \<noteq> 0x23 then Inr (c # cs, f') else read_header f')"
  by pat_completeness auto
termination
  by (relation "measure length") (auto dest: readline_shorter [OF sym])

text \<open>
  \<^verbatim>\<open>Util2d.load(f, model, (nrow, ncol), np.int, zonnam, ext_unit_dict)\<close> is a parameter of
  the model: it reads from the open file and returns the array object and the file as
  it left it, or raises.
\<close>

datatype dtype = Np_int

type_synonym shape = "int option \<times> int option"

type_synonym ext_unit_dict = "(int \<times> string) list"

type_synonym util2d_load =
  "handle \<Rightarrow> model \<Rightarrow> shape \<Rightarrow> dtype \<Rightarrow> pystr \<Rightarrow> ext_unit_dict option \<Rightarrow> exn + (util2d \<times> handle)"

text \<open>
  The body of \<^verbatim>\<open>for n in range(nzn)\<close>, run \<open>k\<close> more times on the file \<open>f\<close> and the
  dictionary \<open>zd\<close>.
\<close>

fun read_zones ::
  "util2d_load \<Rightarrow> model \<Rightarrow> shape \<Rightarrow> ext_unit_dict option \<Rightarrow> nat \<Rightarrow> handle \<Rightarrow> zone_dict \<Rightarrow>
   event list \<times> (exn + zone_dict)" where
  "read_zones U mdl shp eud 0 f zd = ([], Inr zd)"
| "read_zones U mdl shp eud (Suc k) f zd =
     (case readline f of (line, f1) \<Rightarrow>
      (case split (strip line) of
         [] \<Rightarrow> ([], Inl IndexError)
       | t0 # ts \<Rightarrow>
          (let zonnam = (if length t0 > 10 then lower (take 10 t0) else lower t0);
               out = (if verbose mdl
                      then [Stdout_write (str ''   reading data for \"'' @ ljust10 zonnam @
                                          str ''\" zone'' @ [0x0A])]
                      else [])
           in case U f1 mdl shp Np_int zonnam eud of
                Inl e \<Rightarrow> (out, Inl e)
              | Inr (t, f2) \<Rightarrow>
                  (let pop = (case locat t of None \<Rightarrow> [] | Some u \<Rightarrow> [Add_pop_key_list u])
                   in case read_zones U mdl shp eud k f2 (setitem zd zonnam t) of
                        (evs, r) \<Rightarrow> (out @ pop @ evs, r)))))"

definition load ::
  "util2d_load \<Rightarrow> filesystem \<Rightarrow> file_arg \<Rightarrow> model \<Rightarrow> int option \<Rightarrow> int option \<Rightarrow>
   ext_unit_dict option \<Rightarrow> event list \<times> (exn + modflow_zon)" where
  "load U fs f mdl nrow ncol eud =
     (let out = (if verbose mdl then [Stdout_write (str ''loading zone package file...'' @ [0x0A])]
                 else [])
      in case open_file fs f of
           Inl e \<Rightarrow> (out, Inl e)
         | Inr f0 \<Rightarrow>
        (case read_header f0 of
           Inl e \<Rightarrow> (out, Inl e)
         | Inr (line, f1) \<Rightarrow>
        (case split (strip line) of
           [] \<Rightarrow> (out, Inl IndexError)
         | t0 # ts \<Rightarrow>
        (case py_int t0 of
           None \<Rightarrow> (out, Inl ValueError)
         | Some n \<Rightarrow>
        (case (if nrow = None \<and> ncol = None
               then (case nrow_ncol_nlay_nper mdl of
                       (nr, nc, nl, np) \<Rightarrow> ((Some nr, Some nc), [Get_nrow_ncol_nlay_nper]))
               else ((nrow, ncol), [])) of
           (shp, look) \<Rightarrow>
        (case read_zones U mdl shp eud (nat n) f1 [] of
           (evs, Inl e) \<Rightarrow> (out @ look @ evs, Inl e)
         | (evs, Inr zd) \<Rightarrow>
            (case ModflowZon_init mdl (Some zd) ''zon'' 1001 of
               (zon, reg) \<Rightarrow> (out @ look @ evs @ reg, Inr zon))))))))"

section \<open>What a zone file holds\<close>

text \<open>
  The notions in which the reading of a zone file is specified, independent of
  \<open>load\<close>. The key of a zone is its name, cut to its first 10 characters and then put
  in lower case.
\<close>

definition zone_key :: "pystr \<Rightarrow> pystr" where
  "zone_key t0 = lower (take 10 t0)"

text \<open>A complete line: its last character is the only line feed.\<close>

definition is_line :: "pystr \<Rightarrow> bool" where
  "is_line l = (l \<noteq> [] \<and> last l = 0x0A \<and> 0x0A \<notin> set (butlast l))"

text \<open>
  The names, as they stand in the file, of the \<open>k\<close> zone entries that start at \<open>f\<close>:
  an entry is a line whose first word is the name, followed by the array, which
  \<^verbatim>\<open>Util2d.load\<close> reads. \<open>None\<close> when fewer than \<open>k\<close> entries can be read.
\<close>

fun zone_entries ::
  "util2d_load \<Rightarrow> model \<Rightarrow> shape \<Rightarrow> ext_unit_dict option \<Rightarrow> nat \<Rightarrow> handle \<Rightarrow> pystr list option" where
  "zone_entries U mdl shp eud 0 f = Some []"
| "zone_entries U mdl shp eud (Suc k) f =
     (case readline f of (line, f1) \<Rightarrow>
      (case split (strip line) of
         [] \<Rightarrow> None
       | t0 # ts \<Rightarrow>
          (case U f1 mdl shp Np_int (zone_key t0) eud of
             Inl e \<Rightarrow> None
           | Inr (t, f2) \<Rightarrow> map_option ((#) t0) (zone_entries U mdl shp eud k f2))))"


text \<open>
  The arrays of the \<open>k\<close> zone entries that start at \<open>f\<close>, each with its key, when
  \<^verbatim>\<open>Util2d.load\<close> is called with the shape \<open>shp\<close> for every one of them; the exception
  of the first entry that cannot be read otherwise. \<open>assign\<close> makes the assignments
  \<^verbatim>\<open>zone_dict[key] = array\<close> in the order of the list.
\<close>

fun zone_arrays ::
  "util2d_load \<Rightarrow> model \<Rightarrow> shape \<Rightarrow> ext_unit_dict option \<Rightarrow> nat \<Rightarrow> handle \<Rightarrow>
   exn + (pystr \<times> util2d) list" where
  "zone_arrays U mdl shp eud 0 f = Inr []"
| "zone_arrays U mdl shp eud (Suc k) f =
     (case readline f of (line, f1) \<Rightarrow>
      (case split (strip line) of
         [] \<Rightarrow> Inl IndexError
       | t0 # ts \<Rightarrow>
          (case U f1 mdl shp Np_int (zone_key t0) eud of
             Inl e \<Rightarrow> Inl e
           | Inr (t, f2) \<Rightarrow>
               (case zone_arrays U mdl shp eud k f2 of
                  Inl e \<Rightarrow> Inl e
                | Inr ps \<Rightarrow> Inr ((zone_key t0, t) # ps)))))"

fun assign :: "(pystr \<times> util2d) list \<Rightarrow> zone_dict \<Rightarrow> zone_dict" where
  "assign [] zd = zd"
| "assign ((key, t) # ps) zd = assign ps (setitem zd key t)"

section \<open>Example inputs\<close>

text \<open>
  A stand-in for \<^verbatim>\<open>Util2d.load\<close> in the examples: it reads one control line
  \<^verbatim>\<open>CONSTANT k\<close> and returns the array filled with \<open>k\<close>, with no external unit. The
  array has the rows and columns of the shape; it is empty when the shape leaves one of
  them open.
\<close>

definition const_load :: util2d_load where
  "const_load f mdl shp dt nm eud =
     (case readline f of (line, f') \<Rightarrow>
      (case split (strip line) of
         [kw, v] \<Rightarrow>
           (if kw = str ''CONSTANT'' then
              (case py_int v of
                 None \<Rightarrow> Inl ValueError
               | Some k \<Rightarrow>
                   Inr (\<lparr>array = (case shp of
                                    (Some r, Some c) \<Rightarrow> replicate (nat r) (replicate (nat c) k)
                                  | _ \<Rightarrow> []),
                         locat = None\<rparr>, f'))
            else Inl ValueError)
       | _ \<Rightarrow> Inl ValueError))"

text \<open>
  A second stand-in, which shows the shape it was called with: it reads one line and
  returns the array of the single row \<open>[nrow, ncol]\<close>, with \<open>-1\<close> for \<^verbatim>\<open>None\<close>.
\<close>

definition shape_load :: util2d_load where
  "shape_load f mdl shp dt nm eud =
     (case readline f of (line, f') \<Rightarrow>
        Inr (\<lparr>array = [[case fst shp of None \<Rightarrow> - 1 | Some r \<Rightarrow> r,
                         case snd shp of None \<Rightarrow> - 1 | Some c \<Rightarrow> c]],
              locat = None\<rparr>, f'))"

text \<open>
  A model with 2 rows and 3 columns, a zone file with two entries, and the package that
  \<open>load\<close> returns for it.
\<close>

definition example_model :: model where
  "example_model = \<lparr>verbose = False, nrow_ncol_nlay_nper = (2, 3, 1, 1)\<rparr>"

definition example_entries :: pystr where
  "example_entries =
     str ''ZoneAlphaBetaGamma'' @ [0x0A] @ str ''CONSTANT 1'' @ [0x0A] @
     str ''zb'' @ [0x0A] @ str ''CONSTANT 2'' @ [0x0A]"

definition example_file :: pystr where
  "example_file = str ''# zones'' @ [0x0A] @ str ''2'' @ [0x0A] @ example_entries"


text \<open>
  A package with one zone, as a caller builds it, and a file whose count line holds a
  word that is no integer.
\<close>

definition example_zon :: modflow_zon where
  "example_zon =
     fst (ModflowZon_init example_model (Some [(str ''zone1'', \<lparr>array = [[1]], locat = None\<rparr>)])
            ''zon'' 1001)"

definition bad_file :: pystr where
  "bad_file = str ''# zones'' @ [0x0A] @ str ''two'' @ [0x0A] @ example_entries"

text \<open>
  A file with one zone, whose name has 11 characters: ten times U+0130 (capital I with
  dot above) and \<^verbatim>\<open>X\<close>. Its key, and the package that \<open>load\<close> returns for it.
\<close>

definition dotted_file :: pystr where
  "dotted_file =
     str ''1'' @ [0x0A] @ replicate 10 0x130 @ str ''X'' @ [0x0A] @ str ''CONSTANT 1'' @ [0x0A]"

definition dotted_key :: pystr where
  "dotted_key = concat (replicate 10 [0x69, 0x307])"

definition dotted_package :: modflow_zon where
  "dotted_package =
     \<lparr>parent = example_model, extension = ''zon'', name = ''ZONE'', unit_number = 1001,
      heading = ''# ZONE for MODFLOW, generated by Flopy.'', url = ''zon.htm'', nzn = 1,
      zone_dict = Some [(dotted_key, \<lparr>array = [[1, 1, 1], [1, 1, 1]], locat = None\<rparr>)]\<rparr>"

text \<open>A file with one zone, read with \<open>shape_load\<close>.\<close>

definition one_zone_file :: pystr where
  "one_zone_file = str ''1'' @ [0x0A] @ str ''zone1'' @ [0x0A] @ str ''CONSTANT 1'' @ [0x0A]"

section \<open>The zone-budget tests: \<^verbatim>\<open>autotest/t035_test.py\<close>\<close>

text \<open>
  A test opens the cell-by-cell budget file and computes the budget object \<^verbatim>\<open>zbud\<close>
  with the class \<^verbatim>\<open>ZoneBudget\<close> of \<^verbatim>\<open>flopy.utils\<close>. The budget object is the
  argument of the test here: it gives, for each query, the record array that the query
  returns, as the list of its rows, so that \<^verbatim>\<open>recs.shape[0]\<close> is the length of the list.
  A test returns the calls it made on \<^verbatim>\<open>zbud\<close> and what it printed, in order, and
  either the exception it raised or \<^verbatim>\<open>None\<close>. The argument \<^verbatim>\<open>zones\<close> is a list of zones;
  a single zone is the list of that zone.
\<close>

datatype zone = Zone int | Alias string

datatype query =
    Get_records "(string \<times> string) list option" "zone list option"
  | Get_mass_balance
  | Get_total_outflow "zone list"
  | Get_total_inflow "zone list"
  | Get_percent_error

type_synonym 'r zonebudget = "query \<Rightarrow> 'r list"

datatype action = Query query | To_csv string string | Print_dtype | Print_recs

definition pth :: string where
  "pth = ''../examples/data/zonbud_examples''"





definition test_zonbud_aliases :: "'r zonebudget \<Rightarrow> action list \<times> (exn + unit)" where
  "test_zonbud_aliases zbud =
     (let done0 = [To_csv (pth @ ''/zbud_aliases.csv'') ''zonbud''];
          recs = zbud (Get_records None None);
          done1 = done0 @ [Query (Get_records None None)]
      in if length recs = 0 then (done1, Inl (Exception ''No records returned.''))
         else
     (let done2 = done1 @ [Print_dtype, Print_recs];
          recordlist = [(''IN'', ''FROM Mike'')];
          recs = zbud (Get_records (Some recordlist) (Some [Alias ''Trey'', Zone 3]));
          done3 = done2 @ [Query (Get_records (Some recordlist) (Some [Alias ''Trey'', Zone 3]))]
      in (done3 @ [Print_dtype, Print_recs], Inr ())))"


definition queries :: "action list \<Rightarrow> query list" where
  "queries acts = concat (map (\<lambda>a. case a of Query q \<Rightarrow> [q] | _ \<Rightarrow> []) acts)"





text \<open>
  A budget in which the second query of \<^verbatim>\<open>test_zonbud_aliases\<close> returns no rows and every
  other query returns one row.
\<close>

definition aliases_zbud :: "unit zonebudget" where
  "aliases_zbud q =
     (if q = Get_records (Some [(''IN'', ''FROM Mike'')]) (Some [Alias ''Trey'', Zone 3])
      then [] else [()])"

section \<open>The river package definition: \<^verbatim>\<open>flopy/mf6/modflow/mfgwfriv.py\<close>\<close>

text \<open>
  \<^verbatim>\<open>ModflowGwfriv.dfn\<close>: one entry for each variable, a list of items \<^verbatim>\<open>key value\<close>.
\<close>

definition dfn :: "string list list" where
  "dfn =
     [[''block options'', ''name auxiliary'', ''type string'', ''shape (naux)'',
       ''reader urword'', ''optional true''],
      [''block options'', ''name auxmultname'', ''type string'', ''shape'',
       ''reader urword'', ''optional true''],
      [''block options'', ''name boundnames'', ''type keyword'', ''shape'',
       ''reader urword'', ''optional true''],
      [''block options'', ''name print_input'', ''type keyword'', ''reader urword'',
       ''optional true''],
      [''block options'', ''name print_flows'', ''type keyword'', ''reader urword'',
       ''optional true''],
      [''block options'', ''name save_flows'', ''type keyword'', ''reader urword'',
       ''optional true''],
      [''block options'', ''name ts_filerecord'',
       ''type record ts6 filein ts6_filename'', ''shape'', ''reader urword'',
       ''tagged true'', ''optional true''],
      [''block options'', ''name ts6'', ''type keyword'', ''shape'', ''in_record true'',
       ''reader urword'', ''tagged true'', ''optional false''],
      [''block options'', ''name filein'', ''type keyword'', ''shape'',
       ''in_record true'', ''reader urword'', ''tagged true'', ''optional false''],
      [''block options'', ''name ts6_filename'', ''type string'',
       ''preserve_case true'', ''in_record true'', ''reader urword'',
       ''optional false'', ''tagged false''],
      [''block options'', ''name obs_filerecord'',
       ''type record obs6 filein obs6_filename'', ''shape'', ''reader urword'',
       ''tagged true'', ''optional true''],
      [''block options'', ''name obs6'', ''type keyword'', ''shape'',
       ''in_record true'', ''reader urword'', ''tagged true'', ''optional false''],
      [''block options'', ''name obs6_filename'', ''type string'',
       ''preserve_case true'', ''in_record true'', ''tagged false'', ''reader urword'',
       ''optional false''],
      [''block options'', ''name mover'', ''type keyword'', ''tagged true'',
       ''reader urword'', ''optional true''],
      [''block dimensions'', ''name maxbound'', ''type integer'', ''reader urword'',
       ''optional false''],
      [''block period'', ''name iper'', ''type integer'', ''block_variable True'',
       ''in_record true'', ''tagged false'', ''shape'', ''valid'', ''reader urword'',
       ''optional false''],
      [''block period'', ''name periodrecarray'',
       ''type recarray cellid stage cond rbot aux boundname'', ''shape (maxbound)'',
       ''reader urword''],
      [''block period'', ''name cellid'', ''type integer'', ''shape (ncelldim)'',
       ''tagged false'', ''in_record true'', ''reader urword''],
      [''block period'', ''name stage'', ''type double precision'', ''shape'',
       ''tagged false'', ''in_record true'', ''reader urword'', ''time_series true''],
      [''block period'', ''name cond'', ''type double precision'', ''shape'',
       ''tagged false'', ''in_record true'', ''reader urword'', ''time_series true''],
      [''block period'', ''name rbot'', ''type double precision'', ''shape'',
       ''tagged false'', ''in_record true'', ''reader urword'', ''time_series true''],
      [''block period'', ''name aux'', ''type double precision'', ''in_record true'',
       ''tagged false'', ''shape (naux)'', ''reader urword'', ''optional true'',
       ''time_series true''],
      [''block period'', ''name boundname'', ''type string'', ''shape'',
       ''tagged false'', ''in_record true'', ''reader urword'', ''optional true'']]"

text \<open>
  The values of the items of an entry with the given key, and the entries of the
  variable with the given name.
\<close>

definition field :: "string \<Rightarrow> string list \<Rightarrow> string list" where
  "field key e =
     map (drop (length key + 1)) (filter (\<lambda>s. take (length key + 1) s = key @ '' '') e)"

definition variable :: "string \<Rightarrow> string list list" where
  "variable v = filter (\<lambda>e. field ''name'' e = [v]) dfn"

section \<open>Properties of the helpers\<close>

lemma setitem_keys:
  "map fst (setitem zd k v) = (if k \<in> set (map fst zd) then map fst zd else map fst zd @ [k])"
  by (induction zd) auto








lemma zone_key_eq: "zone_key t0 = lower (take 10 t0)"
  by (simp add: zone_key_def)

lemma readline_line:
  assumes "is_line l"
  shows "readline (l @ rest) = (l, rest)"
proof -
  from assms obtain b where l: "l = b @ [0x0A]" and b: "0x0A \<notin> set b"
    unfolding is_line_def by (metis append_butlast_last_id)
  have b': "\<forall>x \<in> set b. x \<noteq> 0x0A" using b by auto
  have t: "takeWhile (\<lambda>c. c \<noteq> 0x0A) (b @ 0x0A # rest) = b"
    using b' by (simp add: takeWhile_tail)
  have d: "dropWhile (\<lambda>c. c \<noteq> 0x0A) (b @ 0x0A # rest) = 0x0A # rest"
    using b' by (simp add: dropWhile_append2)
  show ?thesis using t d by (simp add: readline_def l)
qed

lemma read_header_comments:
  assumes "\<forall>c \<in> set comments. is_line c \<and> hd c = 0x23"
    and "is_line line" and "hd line \<noteq> 0x23"
  shows "read_header (concat comments @ line @ rest) = Inr (line, rest)"
  using assms
proof (induction comments)
  case Nil
  then obtain c cs where l: "line = c # cs" by (cases line) (auto simp: is_line_def)
  have "readline (line @ rest) = (line, rest)" using Nil.prems by (simp add: readline_line)
  then show ?case using Nil.prems l read_header.simps [of "line @ rest"] by simp
next
  case (Cons a comments)
  then obtain cs where a: "a = 0x23 # cs" by (cases a) (auto simp: is_line_def)
  have "readline (a @ (concat comments @ line @ rest)) = (a, concat comments @ line @ rest)"
    using Cons.prems by (simp add: readline_line)
  then show ?case
    using Cons a read_header.simps [of "a @ (concat comments @ line @ rest)"] by simp
qed

lemma read_zones_names:
  assumes "zone_entries U mdl shp eud k f = Some toks"
    and "distinct (map fst zd @ map zone_key toks)"
  shows "\<exists>evs zd'. read_zones U mdl shp eud k f zd = (evs, Inr zd') \<and>
           map fst zd' = map fst zd @ map zone_key toks \<and> length toks = k"
  using assms
proof (induction k arbitrary: f zd toks)
  case 0
  then show ?case by simp
next
  case (Suc k)
  obtain line f1 where rl: "readline f = (line, f1)" by (cases "readline f")
  from Suc.prems(1) rl obtain t0 ts where sp: "split (strip line) = t0 # ts"
    by (auto split: list.splits)
  from Suc.prems(1) rl sp obtain t f2 where
    u: "U f1 mdl shp Np_int (zone_key t0) eud = Inr (t, f2)"
    by (auto split: sum.splits)
  from Suc.prems(1) rl sp u obtain toks' where
    ze: "zone_entries U mdl shp eud k f2 = Some toks'" and toks: "toks = t0 # toks'"
    by auto
  have notin: "zone_key t0 \<notin> set (map fst zd)"
    using Suc.prems(2) toks by auto
  have keys: "map fst (setitem zd (zone_key t0) t) = map fst zd @ [zone_key t0]"
    using notin by (simp add: setitem_keys)
  have "distinct (map fst (setitem zd (zone_key t0) t) @ map zone_key toks')"
    using Suc.prems(2) toks keys by simp
  from Suc.IH [OF ze this] obtain evs zd' where
    rz: "read_zones U mdl shp eud k f2 (setitem zd (zone_key t0) t) = (evs, Inr zd')"
    and k': "map fst zd' = map fst (setitem zd (zone_key t0) t) @ map zone_key toks'"
    and len: "length toks' = k"
    by blast
  show ?case using rl sp u rz k' len keys toks
    by (cases "10 < length t0") (simp_all add: zone_key_eq Let_def)
qed


lemma read_zones_events:
  "read_zones U mdl shp eud k f zd = (evs, r) \<Longrightarrow>
     \<forall>e \<in> set evs. (\<exists>s. e = Stdout_write s) \<or> (\<exists>u. e = Add_pop_key_list u)"
proof (induction k arbitrary: f zd evs r)
  case 0
  then show ?case by auto
next
  case (Suc k)
  obtain line f1 where rl: "readline f = (line, f1)" by (cases "readline f")
  show ?case
  proof (cases "split (strip line)")
    case Nil
    then show ?thesis using Suc.prems rl by auto
  next
    case (Cons t0 ts)
    let ?nm = "lower (take 10 t0)"
    show ?thesis
    proof (cases "U f1 mdl shp Np_int ?nm eud")
      case (Inl e)
      then show ?thesis using Suc.prems rl Cons
        by (cases "10 < length t0") (auto simp: Let_def)
    next
      case (Inr p)
      obtain t f2 where p: "p = (t, f2)" by (cases p)
      obtain evs' r' where rz: "read_zones U mdl shp eud k f2 (setitem zd ?nm t) = (evs', r')"
        by (cases "read_zones U mdl shp eud k f2 (setitem zd ?nm t)")
      from Suc.IH [OF rz] have "\<forall>e \<in> set evs'. (\<exists>s. e = Stdout_write s) \<or> (\<exists>u. e = Add_pop_key_list u)" .
      then show ?thesis using Suc.prems rl Cons Inr p rz
        by (cases "10 < length t0") (auto simp: Let_def split: option.splits)
    qed
  qed
qed

lemma read_zones_arrays:
  "snd (read_zones U mdl shp eud k f zd) =
     (case zone_arrays U mdl shp eud k f of Inl e \<Rightarrow> Inl e | Inr ps \<Rightarrow> Inr (assign ps zd))"
proof (induction k arbitrary: f zd)
  case 0
  then show ?case by simp
next
  case (Suc k)
  obtain line f1 where rl: "readline f = (line, f1)" by (cases "readline f")
  show ?case
  proof (cases "split (strip line)")
    case Nil
    then show ?thesis using rl by simp
  next
    case (Cons t0 ts)
    let ?nm = "lower (take 10 t0)"
    show ?thesis
    proof (cases "U f1 mdl shp Np_int ?nm eud")
      case (Inl e)
      then show ?thesis using rl Cons
        by (cases "10 < length t0") (simp_all add: Let_def zone_key_eq)
    next
      case (Inr p)
      obtain t f2 where p: "p = (t, f2)" by (cases p)
      obtain evs r where rz: "read_zones U mdl shp eud k f2 (setitem zd ?nm t) = (evs, r)"
        by (cases "read_zones U mdl shp eud k f2 (setitem zd ?nm t)")
      have "r = (case zone_arrays U mdl shp eud k f2 of
                   Inl e \<Rightarrow> Inl e | Inr ps \<Rightarrow> Inr (assign ps (setitem zd ?nm t)))"
        using Suc.IH [of f2 "setitem zd ?nm t"] rz by simp
      then show ?thesis using rl Cons Inr p rz
        by (cases "10 < length t0") (simp_all add: Let_def zone_key_eq split: sum.splits)
    qed
  qed
qed

lemma load_events:
  assumes "load U fs f mdl nrow ncol eud = (evs, r)"
  shows "\<exists>pre reg. evs = pre @ reg \<and>
           (\<forall>e \<in> set pre. (\<exists>s. e = Stdout_write s) \<or> (\<exists>u. e = Add_pop_key_list u) \<or>
                             (e = Get_nrow_ncol_nlay_nper \<and> nrow = None \<and> ncol = None)) \<and>
           reg = (case r of Inl e \<Rightarrow> [] | Inr zon \<Rightarrow> [Add_package zon])"
proof -
  let ?ok = "\<lambda>e. (\<exists>s. e = Stdout_write s) \<or> (\<exists>u. e = Add_pop_key_list u) \<or>
                 (e = Get_nrow_ncol_nlay_nper \<and> nrow = None \<and> ncol = None)"
  let ?out = "if verbose mdl then [Stdout_write (str ''loading zone package file...'' @ [0x0A])] else []"
  have out: "\<forall>e \<in> set ?out. ?ok e" by simp
  show ?thesis
  proof (cases "open_file fs f")
    case (Inl e)
    then have "evs = ?out" "r = Inl e" using assms by (simp_all add: load_def)
    then show ?thesis using out by simp
  next
    case f0: (Inr f0)
    show ?thesis
    proof (cases "read_header f0")
      case (Inl e)
      then have "evs = ?out" "r = Inl e" using assms f0 by (simp_all add: load_def)
      then show ?thesis using out by simp
    next
      case (Inr p)
      obtain line f1 where p: "p = (line, f1)" by (cases p)
      show ?thesis
      proof (cases "split (strip line)")
        case Nil
        then have "evs = ?out" "r = Inl IndexError" using assms f0 Inr p by (simp_all add: load_def)
        then show ?thesis using out by simp
      next
        case (Cons t0 ts)
        show ?thesis
        proof (cases "py_int t0")
          case None
          then have "evs = ?out" "r = Inl ValueError"
            using assms f0 Inr p Cons by (simp_all add: load_def)
          then show ?thesis using out by simp
        next
          case (Some n)
          obtain shp look where sl: "(if nrow = None \<and> ncol = None
               then (case nrow_ncol_nlay_nper mdl of
                       (nr, nc, nl, np) \<Rightarrow> ((Some nr, Some nc), [Get_nrow_ncol_nlay_nper]))
               else ((nrow, ncol), [])) = (shp, look)"
            by (cases "(if nrow = None \<and> ncol = None
               then (case nrow_ncol_nlay_nper mdl of
                       (nr, nc, nl, np) \<Rightarrow> ((Some nr, Some nc), [Get_nrow_ncol_nlay_nper]))
               else ((nrow, ncol), []))")
          have look: "\<forall>e \<in> set look. ?ok e"
            using sl by (auto split: if_splits prod.splits)
          obtain evs' r' where rz: "read_zones U mdl shp eud (nat n) f1 [] = (evs', r')"
            by (cases "read_zones U mdl shp eud (nat n) f1 []")
          have evs': "\<forall>e \<in> set evs'. ?ok e"
            using read_zones_events [OF rz] by blast
          have pre: "\<forall>e \<in> set (?out @ look @ evs'). ?ok e"
            using out look evs' by (metis Un_iff set_append)
          show ?thesis
          proof (cases r')
            case (Inl e)
            then have "evs = ?out @ look @ evs'" "r = Inl e"
              using assms f0 Inr p Cons Some sl rz by (simp_all add: load_def)
            then show ?thesis using pre by (intro exI [of _ "?out @ look @ evs'"] exI [of _ "[]"]) simp
          next
            case zd: (Inr zd)
            obtain zon where zon: "zon = fst (ModflowZon_init mdl (Some zd) ''zon'' 1001)" by simp
            have "evs = (?out @ look @ evs') @ [Add_package zon]" "r = Inr zon"
              using assms f0 Inr p Cons Some sl rz zd zon
              by (simp_all add: load_def ModflowZon_init_def Let_def)
            then show ?thesis using pre
              by (intro exI [of _ "?out @ look @ evs'"] exI [of _ "[Add_package zon]"]) simp
          qed
        qed
      qed
    qed
  qed
qed

section \<open>The constructor\<close>

text \<open>
  C9. After \<^verbatim>\<open>__init__\<close>, \<open>nzn\<close> is the length of \<open>zone_dict\<close> when one is given, and the
  attribute holds it; when none is given, \<open>nzn\<close> is 0 and the attribute \<open>zone_dict\<close> has
  not been assigned, so that reading it raises AttributeError. In both cases the
  constructor makes exactly one call on the model: \<^verbatim>\<open>add_package\<close> with the new package.
\<close>

theorem ModflowZon_init_nzn:
  "(\<forall>d. zd = Some d \<longrightarrow>
        nzn (fst (ModflowZon_init mdl zd ext u)) = int (length d) \<and>
        get_zone_dict (fst (ModflowZon_init mdl zd ext u)) = Inr d) \<and>
   (zd = None \<longrightarrow>
        nzn (fst (ModflowZon_init mdl zd ext u)) = 0 \<and>
        get_zone_dict (fst (ModflowZon_init mdl zd ext u)) = Inl AttributeError) \<and>
   snd (ModflowZon_init mdl zd ext u) = [Add_package (fst (ModflowZon_init mdl zd ext u))]"
  by (cases zd) (simp_all add: ModflowZon_init_def get_zone_dict_def Let_def)

theorem ModflowZon_init_nzn_witness:
  "nzn example_zon = 1 \<and>
   get_zone_dict example_zon = Inr [(str ''zone1'', \<lparr>array = [[1]], locat = None\<rparr>)] \<and>
   nzn (fst (ModflowZon_init example_model None ''zon'' 1001)) = 0 \<and>
   get_zone_dict (fst (ModflowZon_init example_model None ''zon'' 1001)) = Inl AttributeError"
  using ModflowZon_init_nzn [of "Some [(str ''zone1'', \<lparr>array = [[1]], locat = None\<rparr>)]" example_model "''zon''" 1001]
    ModflowZon_init_nzn [of None example_model "''zon''" 1001]
  by (simp add: example_zon_def)

section \<open>Writing\<close>

text \<open>
  C4, as amended. \<^verbatim>\<open>write_file\<close> writes nothing: for every package it leaves every file
  as it was.
\<close>

theorem write_file_writes_nothing: "write_file self fs = fs"
  by (simp add: write_file_def)

text \<open>
  C4 as stated fails: on a file system without files, \<^verbatim>\<open>write_file\<close> of a package with
  one zone leaves no file \<^verbatim>\<open>model.zon\<close>.
\<close>

theorem write_file_counterexample:
  "write_file example_zon Map.empty ''model.zon'' = None"
  by (simp add: write_file_def)

text \<open>
  C1, as amended. Since \<^verbatim>\<open>write_file\<close> writes nothing, \<open>load\<close> after \<^verbatim>\<open>write_file\<close>
  returns what \<open>load\<close> returns without it, whatever the \<open>zone_dict\<close> of the package.
\<close>

theorem load_after_write_file:
  "load U (write_file self fs) f mdl nrow ncol eud = load U fs f mdl nrow ncol eud"
  by (simp add: write_file_def)

text \<open>
  C1 as stated fails: the package holds one zone, and after \<^verbatim>\<open>write_file\<close> on a file
  system without files \<open>load\<close> of \<^verbatim>\<open>model.zon\<close> raises IOError.
\<close>

theorem write_load_counterexample:
  "get_zone_dict example_zon = Inr [(str ''zone1'', \<lparr>array = [[1]], locat = None\<rparr>)] \<and>
   load const_load (write_file example_zon Map.empty) (Filename ''model.zon'') example_model
     None None None = ([], Inl IOError)"
  by (simp add: write_file_def load_def open_file_def example_model_def example_zon_def
      ModflowZon_init_def get_zone_dict_def Let_def)

section \<open>Reading a zone file\<close>

text \<open>
  C2. A zone file is read from \<open>f\<close>: comment lines, then a line whose first word is
  the integer \<open>n\<close>, then \<open>n\<close> zone entries whose names \<open>toks\<close> have pairwise distinct
  keys. Then \<open>load\<close> returns a package whose \<open>zone_dict\<close> has exactly the keys of
  these names, in the order of the file, so \<open>n\<close> entries, and whose \<open>nzn\<close> is \<open>n\<close>.
  (A file holds \<open>n\<close> entries only for \<open>0 \<le> n\<close>.)
\<close>

theorem load_reads_zones:
  assumes opened: "open_file fs f = Inr (concat comments @ line @ rest)"
    and comments: "\<forall>c \<in> set comments. is_line c \<and> hd c = 0x23"
    and line: "is_line line" "hd line \<noteq> 0x23"
    and count: "split (strip line) = t0 # ts" "py_int t0 = Some n" "0 \<le> n"
    and entries: "zone_entries U mdl
            (if nrow = None \<and> ncol = None
             then (Some (fst (nrow_ncol_nlay_nper mdl)), Some (fst (snd (nrow_ncol_nlay_nper mdl))))
             else (nrow, ncol)) eud (nat n) rest = Some toks"
    and names: "distinct (map zone_key toks)"
  shows "\<exists>evs zon zd. load U fs f mdl nrow ncol eud = (evs, Inr zon) \<and>
           zone_dict zon = Some zd \<and> map fst zd = map zone_key toks \<and>
           int (length zd) = n \<and> nzn zon = n"
proof -
  let ?shp = "if nrow = None \<and> ncol = None
             then (Some (fst (nrow_ncol_nlay_nper mdl)), Some (fst (snd (nrow_ncol_nlay_nper mdl))))
             else (nrow, ncol)"
  have hdr: "read_header (concat comments @ line @ rest) = Inr (line, rest)"
    using comments line by (rule read_header_comments)
  from read_zones_names [OF entries, of "[]"] names obtain evs zd where
    rz: "read_zones U mdl ?shp eud (nat n) rest [] = (evs, Inr zd)"
    and keys: "map fst zd = map zone_key toks" and len: "length toks = nat n"
    by auto
  have "length zd = nat n" using keys len by (metis length_map)
  then have n: "int (length zd) = n" using count(3) by simp
  show ?thesis
  proof (cases "nrow = None \<and> ncol = None")
    case True
    then show ?thesis using opened hdr count rz keys n
      by (cases "nrow_ncol_nlay_nper mdl") (simp add: load_def ModflowZon_init_def Let_def)
  next
    case False
    then show ?thesis using opened hdr count rz keys n
      by (auto simp: load_def ModflowZon_init_def Let_def)
  qed
qed

theorem load_reads_zones_witness:
  "\<exists>evs zon zd.
     load const_load Map.empty (Handle example_file) example_model None None None = (evs, Inr zon) \<and>
     zone_dict zon = Some zd \<and> map fst zd = [str ''zonealphab'', str ''zb''] \<and>
     int (length zd) = 2 \<and> nzn zon = 2"
proof -
  have opened: "open_file Map.empty (Handle example_file) =
      Inr (concat [str ''# zones'' @ [0x0A]] @ (str ''2'' @ [0x0A]) @ example_entries)"
    by (simp add: open_file_def example_file_def)
  have comments: "\<forall>c \<in> set [str ''# zones'' @ [0x0A]]. is_line c \<and> hd c = 0x23"
    by (simp add: is_line_def str_def)
  have line: "is_line (str ''2'' @ [0x0A])" "hd (str ''2'' @ [0x0A]) \<noteq> 0x23"
    by (simp_all add: is_line_def str_def)
  have count: "split (strip (str ''2'' @ [0x0A])) = str ''2'' # []" "py_int (str ''2'') = Some 2"
      "(0::int) \<le> 2"
    by code_simp+
  have entries: "zone_entries const_load example_model
      (if (None::int option) = None \<and> (None::int option) = None
       then (Some (fst (nrow_ncol_nlay_nper example_model)),
             Some (fst (snd (nrow_ncol_nlay_nper example_model))))
       else (None, None)) None (nat 2) example_entries =
      Some [str ''ZoneAlphaBetaGamma'', str ''zb'']"
    by code_simp
  have names: "distinct (map zone_key [str ''ZoneAlphaBetaGamma'', str ''zb''])"
    by code_simp
  have keys: "map zone_key [str ''ZoneAlphaBetaGamma'', str ''zb''] = [str ''zonealphab'', str ''zb'']"
    by code_simp
  from load_reads_zones [OF opened comments line count entries names]
  show ?thesis unfolding keys .
qed



text \<open>
  C7 as stated fails: the name of the zone has 11 characters, ten times U+0130 and
  \<^verbatim>\<open>X\<close>; it is cut to the ten U+0130, each of which becomes two code points in lower
  case, and the key that \<open>load\<close> stores has 20 characters.
\<close>

theorem zone_key_counterexample:
  "snd (load const_load Map.empty (Handle dotted_file) example_model None None None) =
     Inr dotted_package \<and>
   get_zone_dict dotted_package =
     Inr [(dotted_key, \<lparr>array = [[1, 1, 1], [1, 1, 1]], locat = None\<rparr>)] \<and>
   length dotted_key = 20"
  by code_simp

text \<open>
  C5. When \<open>load\<close> raises, no call of \<^verbatim>\<open>add_package\<close> has been made, so no package has
  been constructed and added to the model. When \<open>load\<close> returns a package, the call of
  \<^verbatim>\<open>add_package\<close> with that package is the last call, after all zones have been read, and
  the only one.
\<close>

theorem load_failure_no_package:
  "(\<forall>evs e. load U fs f mdl nrow ncol eud = (evs, Inl e) \<longrightarrow> (\<forall>p. Add_package p \<notin> set evs)) \<and>
   (\<forall>evs zon. load U fs f mdl nrow ncol eud = (evs, Inr zon) \<longrightarrow>
      (\<exists>evs'. evs = evs' @ [Add_package zon] \<and> (\<forall>p. Add_package p \<notin> set evs')))"
proof (intro conjI allI impI)
  fix evs e p
  assume "load U fs f mdl nrow ncol eud = (evs, Inl e)"
  from load_events [OF this] show "Add_package p \<notin> set evs" by auto
next
  fix evs zon
  assume "load U fs f mdl nrow ncol eud = (evs, Inr zon)"
  from load_events [OF this] obtain pre where
    "evs = pre @ [Add_package zon]"
    "\<forall>e \<in> set pre. (\<exists>s. e = Stdout_write s) \<or> (\<exists>u. e = Add_pop_key_list u) \<or>
                             (e = Get_nrow_ncol_nlay_nper \<and> nrow = None \<and> ncol = None)"
    by auto
  then show "\<exists>evs'. evs = evs' @ [Add_package zon] \<and> (\<forall>p. Add_package p \<notin> set evs')"
    by (intro exI [of _ pre]) auto
qed

theorem load_failure_no_package_witness:
  "load const_load Map.empty (Handle bad_file) example_model None None None = ([], Inl ValueError) \<and>
   (\<forall>p. Add_package p \<notin> set ([] :: event list))"
proof -
  have l: "load const_load Map.empty (Handle bad_file) example_model None None None = ([], Inl ValueError)"
    by code_simp
  from load_failure_no_package [of const_load Map.empty "Handle bad_file" example_model None None None] l
  show ?thesis by simp
qed

text \<open>
  C8. \<open>load\<close> calls \<^verbatim>\<open>get_nrow_ncol_nlay_nper\<close> only when both \<open>nrow\<close> and \<open>ncol\<close> are
  \<^verbatim>\<open>None\<close>. Once the number of zones has been read, it calls it when both are \<^verbatim>\<open>None\<close>,
  and what it returns or raises is then decided by the calls of \<^verbatim>\<open>Util2d.load\<close> for the
  zone entries with one shape: the rows and columns of the model when both arguments
  are \<^verbatim>\<open>None\<close>, and otherwise the pair of the two arguments as they were passed, so with
  \<^verbatim>\<open>None\<close> for the one that was not passed. The \<open>zone_dict\<close> holds the arrays that these
  calls return.
\<close>

theorem load_dimension_lookup:
  "(Get_nrow_ncol_nlay_nper \<in> set (fst (load U fs f mdl nrow ncol eud)) \<longrightarrow>
      nrow = None \<and> ncol = None) \<and>
   (open_file fs f = Inr f0 \<and> read_header f0 = Inr (line, f1) \<and>
    split (strip line) = t0 # ts \<and> py_int t0 = Some n \<longrightarrow>
      (nrow = None \<and> ncol = None \<longrightarrow>
         Get_nrow_ncol_nlay_nper \<in> set (fst (load U fs f mdl nrow ncol eud))) \<and>
      map_sum id zone_dict (snd (load U fs f mdl nrow ncol eud)) =
        map_sum id (\<lambda>ps. Some (assign ps []))
          (zone_arrays U mdl
             (if nrow = None \<and> ncol = None
              then (Some (fst (nrow_ncol_nlay_nper mdl)), Some (fst (snd (nrow_ncol_nlay_nper mdl))))
              else (nrow, ncol))
             eud (nat n) f1))"
proof -
  let ?L = "load U fs f mdl nrow ncol eud"
  let ?shp = "if nrow = None \<and> ncol = None
              then (Some (fst (nrow_ncol_nlay_nper mdl)), Some (fst (snd (nrow_ncol_nlay_nper mdl))))
              else (nrow, ncol)"
  let ?look = "if nrow = None \<and> ncol = None then [Get_nrow_ncol_nlay_nper] else []"
  let ?out = "if verbose mdl then [Stdout_write (str ''loading zone package file...'' @ [0x0A])] else []"
  have 1: "nrow = None \<and> ncol = None" if g: "Get_nrow_ncol_nlay_nper \<in> set (fst ?L)"
  proof -
    obtain evs r where l: "?L = (evs, r)" by (cases ?L)
    from load_events [OF l] g l show ?thesis
      by (cases r) auto
  qed
  have 2: "(nrow = None \<and> ncol = None \<longrightarrow> Get_nrow_ncol_nlay_nper \<in> set (fst ?L)) \<and>
           map_sum id zone_dict (snd ?L) =
             map_sum id (\<lambda>ps. Some (assign ps [])) (zone_arrays U mdl ?shp eud (nat n) f1)"
    if h: "open_file fs f = Inr f0" "read_header f0 = Inr (line, f1)"
          "split (strip line) = t0 # ts" "py_int t0 = Some n"
  proof -
    have sl: "(if nrow = None \<and> ncol = None
               then (case nrow_ncol_nlay_nper mdl of
                       (nr, nc, nl, np) \<Rightarrow> ((Some nr, Some nc), [Get_nrow_ncol_nlay_nper]))
               else ((nrow, ncol), [])) = (?shp, ?look)"
      by (cases "nrow_ncol_nlay_nper mdl") (simp split: if_splits)
    obtain evs r where rz: "read_zones U mdl ?shp eud (nat n) f1 [] = (evs, r)"
      by (cases "read_zones U mdl ?shp eud (nat n) f1 []")
    have r: "r = (case zone_arrays U mdl ?shp eud (nat n) f1 of
                    Inl e \<Rightarrow> Inl e | Inr ps \<Rightarrow> Inr (assign ps []))"
      using read_zones_arrays [of U mdl ?shp eud "nat n" f1 "[]"] rz by simp
    have l: "?L = (case r of
                     Inl e \<Rightarrow> (?out @ ?look @ evs, Inl e)
                   | Inr zd \<Rightarrow>
                       (case ModflowZon_init mdl (Some zd) ''zon'' 1001 of
                          (zon, reg) \<Rightarrow> (?out @ ?look @ evs @ reg, Inr zon)))"
      unfolding load_def Let_def using h rz
      by (simp only: sl sum.case prod.case list.case option.case split: sum.splits)
    show ?thesis
    proof (cases r)
      case (Inl e)
      then show ?thesis using l r
        by (auto split: sum.splits)
    next
      case (Inr zd)
      then show ?thesis using l r
        by (auto simp: ModflowZon_init_def Let_def split: sum.splits)
    qed
  qed
  from 1 2 show ?thesis by blast
qed

theorem load_dimension_lookup_witness:
  "Get_nrow_ncol_nlay_nper \<notin>
     set (fst (load shape_load Map.empty (Handle one_zone_file) example_model (Some 3) None None)) \<and>
   map_sum id zone_dict
     (snd (load shape_load Map.empty (Handle one_zone_file) example_model (Some 3) None None)) =
     Inr (Some [(str ''zone1'', \<lparr>array = [[3, - 1]], locat = None\<rparr>)])"
proof -
  have h: "open_file Map.empty (Handle one_zone_file) = Inr one_zone_file \<and>
      read_header one_zone_file =
        Inr (str ''1'' @ [0x0A], str ''zone1'' @ [0x0A] @ str ''CONSTANT 1'' @ [0x0A]) \<and>
      split (strip (str ''1'' @ [0x0A])) = str ''1'' # [] \<and> py_int (str ''1'') = Some 1"
    by code_simp
  have z: "map_sum id (\<lambda>ps. Some (assign ps []))
      (zone_arrays shape_load example_model
         (if Some (3::int) = None \<and> (None::int option) = None
          then (Some (fst (nrow_ncol_nlay_nper example_model)),
                Some (fst (snd (nrow_ncol_nlay_nper example_model))))
          else (Some 3, None))
         None (nat 1) (str ''zone1'' @ [0x0A] @ str ''CONSTANT 1'' @ [0x0A])) =
      Inr (Some [(str ''zone1'', \<lparr>array = [[3, - 1]], locat = None\<rparr>)])"
    by code_simp
  from load_dimension_lookup [of shape_load Map.empty "Handle one_zone_file" example_model "Some 3"
      None None one_zone_file "str ''1'' @ [0x0A]"
      "str ''zone1'' @ [0x0A] @ str ''CONSTANT 1'' @ [0x0A]" "str ''1''" "[]" 1] h z
  show ?thesis by auto
qed

section \<open>The zone-budget tests\<close>



text \<open>
  C3 as stated fails for \<^verbatim>\<open>test_zonbud_aliases\<close>: its last query returns no rows, and the
  test returns without an exception.
\<close>

theorem aliases_counterexample:
  "last (queries (fst (test_zonbud_aliases aliases_zbud))) =
     Get_records (Some [(''IN'', ''FROM Mike'')]) (Some [Alias ''Trey'', Zone 3]) \<and>
   aliases_zbud (Get_records (Some [(''IN'', ''FROM Mike'')]) (Some [Alias ''Trey'', Zone 3])) = [] \<and>
   snd (test_zonbud_aliases aliases_zbud) = Inr ()"
  by (simp add: test_zonbud_aliases_def aliases_zbud_def queries_def Let_def)

section \<open>The river package definition\<close>

text \<open>
  C6. Every entry of \<^verbatim>\<open>dfn\<close> names one variable and puts it into one block, which is
  \<^verbatim>\<open>options\<close>, \<^verbatim>\<open>dimensions\<close> or \<^verbatim>\<open>period\<close>. The variable \<^verbatim>\<open>periodrecarray\<close> is a
  record array of the block \<^verbatim>\<open>period\<close> with the shape \<^verbatim>\<open>(maxbound)\<close>, and \<^verbatim>\<open>maxbound\<close> is
  an integer of the block \<^verbatim>\<open>dimensions\<close>, the only variable of that block.
\<close>

theorem dfn_blocks:
  "list_all (\<lambda>e. length (field ''name'' e) = 1 \<and>
                 (field ''block'' e = [''options''] \<or> field ''block'' e = [''dimensions''] \<or>
                  field ''block'' e = [''period''])) dfn \<and>
   map (\<lambda>e. (field ''block'' e, field ''type'' e, field ''shape'' e)) (variable ''periodrecarray'') =
     [([''period''], [''recarray cellid stage cond rbot aux boundname''], [''(maxbound)''])] \<and>
   map (\<lambda>e. (field ''block'' e, field ''type'' e)) (variable ''maxbound'') =
     [([''dimensions''], [''integer''])] \<and>
   filter (\<lambda>e. field ''block'' e = [''dimensions'']) dfn = variable ''maxbound''"
  by code_simp

end
